theory Spec2Isabelle
  imports Main
begin

section \<open>Strings: the JavaScript string operations used by the mount matcher\<close>

text \<open>
  A JavaScript string is modelled as a \<open>string\<close> (request paths and mount prefixes are
  ASCII in practice). The three library operations that \<open>match\<close> in \<open>src/index.js\<close> calls are
  written out: \<open>indexOf\<close> (first index of an occurrence, or -1), \<open>replace\<close> with a string
  pattern (only the first occurrence is replaced) and \<open>slice(-1)\<close> (the last character as a
  string, the empty string for the empty string).
\<close>

fun startsAt :: "string \<Rightarrow> string \<Rightarrow> bool" where
  "startsAt [] s = True"
| "startsAt (p # ps) [] = False"
| "startsAt (p # ps) (c # cs) = (p = c \<and> startsAt ps cs)"

fun indexFrom :: "string \<Rightarrow> string \<Rightarrow> nat \<Rightarrow> int" where
  "indexFrom pat [] i = (if pat = [] then int i else - 1)"
| "indexFrom pat (c # cs) i = (if startsAt pat (c # cs) then int i else indexFrom pat cs (Suc i))"

definition indexOf :: "string \<Rightarrow> string \<Rightarrow> int" where
  \<comment> \<open>\<open>s.indexOf(pat)\<close>\<close>
  "indexOf s pat = indexFrom pat s 0"

fun replace :: "string \<Rightarrow> string \<Rightarrow> string \<Rightarrow> string" where
  \<comment> \<open>\<open>s.replace(pat, rep)\<close> for a string pattern and a replacement without \<open>$\<close>\<close>
  "replace [] pat rep = (if pat = [] then rep else [])"
| "replace (c # cs) pat rep =
     (if startsAt pat (c # cs) then rep @ drop (length pat) (c # cs)
      else c # replace cs pat rep)"

definition slice_last :: "string \<Rightarrow> string" where
  \<comment> \<open>\<open>s.slice(-1)\<close>\<close>
  "slice_last s = (if s = [] then [] else [last s])"

definition charAt0 :: "string \<Rightarrow> string option" where
  \<comment> \<open>\<open>s[0]\<close>: a one-character string, or \<open>undefined\<close> (here \<open>None\<close>) for the empty string\<close>
  "charAt0 s = (case s of [] \<Rightarrow> None | c # _ \<Rightarrow> Some [c])"

section \<open>The mount matcher\<close>

text \<open>
  \<open>match\<close> is the inner function of \<open>mount\<close> (lines 127 to 137); it closes over \<open>prefix\<close> and
  \<open>trailingSlash\<close>, which are parameters here. Its result is a string or \<open>false\<close>: \<open>None\<close> is
  \<open>false\<close>.
\<close>

definition trailingSlash :: "string \<Rightarrow> bool" where
  "trailingSlash prefix = (slice_last prefix = ''/'')"

definition match :: "string \<Rightarrow> string \<Rightarrow> string option" where
  "match prefix path =
     (if indexOf path prefix \<noteq> 0 then None
      else
        let r = replace path prefix [];
            newPath = (if r = [] then ''/'' else r)
        in if trailingSlash prefix then Some newPath
           else if charAt0 newPath \<noteq> Some ''/'' then None
           else Some newPath)"

text \<open>
  The matching function as section 4.4 of the specification words it: no match unless
  the path starts with the prefix; the remainder is the path without the prefix, \<open>/\<close> when
  that is empty; a prefix with a trailing slash accepts every remainder; a prefix without
  one accepts only a remainder that starts with \<open>/\<close>.
\<close>

definition match_spec :: "string \<Rightarrow> string \<Rightarrow> string option" where
  "match_spec prefix path =
     (if take (length prefix) path \<noteq> prefix then None
      else
        let rest = drop (length prefix) path;
            remainder = (if rest = [] then ''/'' else rest)
        in if prefix \<noteq> [] \<and> last prefix = CHR ''/'' then Some remainder
           else if take 1 remainder = ''/'' then Some remainder
           else None)"

section \<open>JavaScript values, errors and function objects\<close>

datatype jserror = Error string | TypeError string | AssertionError string

text \<open>Values that are neither callable nor thenable.\<close>

datatype val = Undefined | Null | Bool bool | Num int | Str string

text \<open>
  A function object carries what \<open>convert\<close> and \<open>convert.back\<close> read of it:
  \<open>constructor.name\<close>, \<open>name\<close> and the optional attribute \<open>_name\<close> (\<open>None\<close> when it is absent).
  Its body is either code given from outside (of type \<open>'b\<close>) or one of the two closures
  that this library creates, which capture the function they wrap. What the generator
  made by \<open>convert.back\<close> does is modelled further down; what the function made by \<open>convert\<close>
  does is the work of the external engine \<open>co\<close> on a generator of the wrapped function,
  and is left out.
\<close>

datatype 'b jsfunction =
  JSFunction (constructor_name: string) (name: string) (underscore_name: "string option")
    (body: "'b closure")
and 'b closure =
  Code 'b
| ConvertedClosure "'b jsfunction"
| ConvertedBackClosure "'b jsfunction"

datatype 'b jsvalue =
  Primitive val
| Array "'b jsvalue list"
| Object
| Function "'b jsfunction"

fun typeof :: "'b jsvalue \<Rightarrow> string" where
  "typeof (Primitive Undefined) = ''undefined''"
| "typeof (Primitive Null) = ''object''"
| "typeof (Primitive (Bool b)) = ''boolean''"
| "typeof (Primitive (Num n)) = ''number''"
| "typeof (Primitive (Str s)) = ''string''"
| "typeof (Array xs) = ''object''"
| "typeof Object = ''object''"
| "typeof (Function f) = ''function''"

definition name_or :: "string option \<Rightarrow> string \<Rightarrow> string" where
  \<comment> \<open>\<open>mw._name || mw.name\<close>: an absent or empty \<open>_name\<close> is falsy\<close>
  "name_or n d = (case n of None \<Rightarrow> d | Some s \<Rightarrow> if s = [] then d else s)"

section \<open>The adapters\<close>

definition convert :: "'b jsvalue \<Rightarrow> jserror + 'b jsfunction" where
  "convert mw =
     (if typeof mw \<noteq> ''function'' then Inl (TypeError ''middleware must be a function'')
      else case mw of
        Function f \<Rightarrow>
          if constructor_name f \<noteq> ''GeneratorFunction'' then Inr f
          else Inr (JSFunction ''Function'' ''converted''
                      (Some (name_or (underscore_name f) (name f))) (ConvertedClosure f))
      | _ \<Rightarrow> Inl (TypeError ''middleware must be a function''))"

definition convert_back :: "'b jsvalue \<Rightarrow> jserror + 'b jsfunction" where
  "convert_back mw =
     (if typeof mw \<noteq> ''function'' then Inl (TypeError ''middleware must be a function'')
      else case mw of
        Function f \<Rightarrow>
          if constructor_name f = ''GeneratorFunction'' then Inr f
          else Inr (JSFunction ''GeneratorFunction'' ''converted''
                      (Some (name_or (underscore_name f) (name f))) (ConvertedBackClosure f))
      | _ \<Rightarrow> Inl (TypeError ''middleware must be a function''))"



section \<open>Calls, promises and the shared context\<close>

text \<open>
  One request chain runs in a single thread of control, each step waiting for the
  continuation it called (section 5 of the specification). A call is therefore a state
  transformer: it takes the state before the call and gives the completion of the call
  together with the state at the moment the completion is known, which for a returned
  promise is the moment the promise settles. A promise is represented by its outcome;
  \<open>Pending\<close> is a promise that never settles.
\<close>

datatype outcome = Fulfilled val | Rejected jserror | Pending

datatype returned = Plain val | Promise outcome

datatype completion = Threw jserror | Returned returned

type_synonym 's continuation = "'s \<Rightarrow> completion \<times> 's"

type_synonym 's middleware = "'s continuation \<Rightarrow> 's \<Rightarrow> completion \<times> 's"

definition promise_resolve :: "returned \<Rightarrow> outcome" where
  \<comment> \<open>\<open>Promise.resolve(x)\<close>\<close>
  "promise_resolve r = (case r of Plain v \<Rightarrow> Fulfilled v | Promise p \<Rightarrow> p)"

definition promise_then :: "outcome \<Rightarrow> (val \<Rightarrow> 's \<Rightarrow> completion \<times> 's) \<Rightarrow> 's \<Rightarrow> outcome \<times> 's" where
  \<comment> \<open>\<open>p.then(f)\<close>: \<open>f\<close> runs only when \<open>p\<close> is fulfilled\<close>
  "promise_then p f s =
     (case p of
        Fulfilled v \<Rightarrow>
          (case f v s of
             (Threw e, s') \<Rightarrow> (Rejected e, s')
           | (Returned r, s') \<Rightarrow> (promise_resolve r, s'))
      | Rejected e \<Rightarrow> (Rejected e, s)
      | Pending \<Rightarrow> (Pending, s))"

text \<open>
  The context is owned by the host; \<open>mount\<close> reads and writes \<open>path\<close> and writes \<open>mountPath\<close>
  (\<open>None\<close> while the property is not set). Everything else a middleware can reach is the
  extension of the record.
\<close>

record ctx =
  path :: string
  mountPath :: "string option"

section \<open>The mount combinator\<close>

text \<open>
  The continuation that the mounted callable hands to its target (lines 102 to 106).
  \<open>upstream().then\<close> on a value that is not a promise is a \<open>TypeError\<close>, whose message is the
  engine's.
\<close>

definition mount_next ::
  "string \<Rightarrow> string \<Rightarrow> 'a ctx_scheme continuation \<Rightarrow> 'a ctx_scheme continuation" where
  "mount_next prev newPath upstream c =
     (case upstream (c\<lparr>path := prev\<rparr>) of
        (Threw e, c') \<Rightarrow> (Threw e, c')
      | (Returned (Plain v), c') \<Rightarrow> (Threw (TypeError ''upstream(...).then is not a function''), c')
      | (Returned (Promise p), c') \<Rightarrow>
          (case promise_then p (\<lambda>_ d. (Returned (Plain Undefined), d\<lparr>path := newPath\<rparr>)) c' of
             (q, c'') \<Rightarrow> (Returned (Promise q), c'')))"

text \<open>
  \<open>Promise.resolve(r).then(() => { ctx.path = prev })\<close>, applied to the completion of the
  call of the target: a target that throws leaves the mounted callable by the exception,
  before \<open>Promise.resolve\<close> is reached.
\<close>

definition restore_after :: "string \<Rightarrow> completion \<times> 'a ctx_scheme \<Rightarrow> completion \<times> 'a ctx_scheme" where
  "restore_after prev r =
     (case r of
        (Threw e, c') \<Rightarrow> (Threw e, c')
      | (Returned x, c') \<Rightarrow>
          (case promise_then (promise_resolve x)
                  (\<lambda>_ d. (Returned (Plain Undefined), d\<lparr>path := prev\<rparr>)) c' of
             (q, c'') \<Rightarrow> (Returned (Promise q), c'')))"

text \<open>
  The function that \<open>mount\<close> returns for a prefix other than \<open>/\<close> (lines 94 to 110). The test
  \<open>!newPath\<close> holds for \<open>false\<close> and for the empty string.
\<close>

definition mounted :: "string \<Rightarrow> 'a ctx_scheme middleware \<Rightarrow> 'a ctx_scheme middleware" where
  "mounted prefix downstream upstream c =
     (let prev = path c; newPath = match prefix prev
      in case newPath of
           None \<Rightarrow> upstream c
         | Some np \<Rightarrow>
             if np = [] then upstream c
             else
               let c1 = c\<lparr>mountPath := Some prefix\<rparr>;
                   c2 = c1\<lparr>path := np\<rparr>
               in restore_after prev (downstream (mount_next prev np upstream) c2))"

text \<open>
  The target of \<open>mount\<close> is an application object, whose \<open>middleware\<close> array is composed, or
  a bare middleware function. \<open>mount(app)\<close> without a prefix is \<open>None\<close> for the prefix.
\<close>

datatype 's target = Application "'s middleware list" | Middleware "'s middleware"

definition normalize :: "('s middleware list \<Rightarrow> 's middleware) \<Rightarrow> 's target \<Rightarrow> 's middleware" where
  \<comment> \<open>\<open>app.middleware ? compose(app.middleware) : app\<close>\<close>
  "normalize compose app = (case app of Application ms \<Rightarrow> compose ms | Middleware f \<Rightarrow> f)"

definition mount ::
  "('a ctx_scheme middleware list \<Rightarrow> 'a ctx_scheme middleware) \<Rightarrow> string option \<Rightarrow>
     'a ctx_scheme target \<Rightarrow> jserror + 'a ctx_scheme middleware" where
  \<open>mount compose prefix_arg app =
     (let prefix = (case prefix_arg of None \<Rightarrow> ''/'' | Some p \<Rightarrow> p)
      in if charAt0 prefix \<noteq> Some ''/'' then Inl (AssertionError ''mount path must begin with "/"'')
         else
           let downstream = normalize compose app
           in if prefix = ''/'' then Inr downstream
              else Inr (mounted prefix downstream))\<close>

text \<open>\<open>mount(prefix, app)(ctx, upstream)\<close>: the call of what \<open>mount\<close> returned.\<close>

definition mount_call ::
  "('a ctx_scheme middleware list \<Rightarrow> 'a ctx_scheme middleware) \<Rightarrow> string option \<Rightarrow>
     'a ctx_scheme target \<Rightarrow> 'a ctx_scheme middleware" where
  "mount_call compose prefix_arg app upstream c =
     (case mount compose prefix_arg app of
        Inl e \<Rightarrow> (Threw e, c)
      | Inr m \<Rightarrow> m upstream c)"

section \<open>The generator that \<open>convert.back\<close> creates\<close>

text \<open>
  The flag \<open>called\<close> is a variable of the closure: the wrapped function \<open>mw\<close> cannot reach
  it. To keep that in the model, \<open>mw\<close> is given as the script of what it does with the
  context and with the continuation it receives (reads and writes of the state \<open>'s\<close> that
  it can reach, calls of the continuation, and how it completes), and the script is run
  against a continuation that works on a larger state: \<open>'h\<close> is hidden from the script.
\<close>

datatype 's script =
  Return returned
| Throw jserror
| Write "'s \<Rightarrow> 's" "'s script"
| Read "'s \<Rightarrow> 's script"
| CallNext "completion \<Rightarrow> 's script"

primrec invoke ::
  "'s script \<Rightarrow> ('h \<times> 's \<Rightarrow> completion \<times> 'h \<times> 's) \<Rightarrow> 'h \<times> 's \<Rightarrow> completion \<times> 'h \<times> 's" where
  "invoke (Return r) k = (\<lambda>hs. (Returned r, hs))"
| "invoke (Throw e) k = (\<lambda>hs. (Threw e, hs))"
| "invoke (Write f t) k = (\<lambda>hs. invoke t k (fst hs, f (snd hs)))"
| "invoke (Read g) k = (\<lambda>hs. invoke (g (snd hs)) k hs)"
| "invoke (CallNext g) k = (\<lambda>hs. case k hs of (c, hs') \<Rightarrow> invoke (g c) k hs')"

text \<open>
  The continuation given to \<open>mw\<close> (lines 49 to 57). \<open>co_next\<close> is \<open>co.call(ctx, next)\<close>, the
  external engine driving the downstream generator: it returns a promise and may change
  the context and a part \<open>'w\<close> of the world that \<open>mw\<close> does not reach.
\<close>

definition guarded ::
  "('w \<times> 's \<Rightarrow> outcome \<times> 'w \<times> 's) \<Rightarrow> (bool \<times> 'w) \<times> 's \<Rightarrow> completion \<times> (bool \<times> 'w) \<times> 's" where
  "guarded co_next st =
     (case st of
        ((called, w), s) \<Rightarrow>
          if called
          then (Returned (Promise (Rejected (Error ''next() called multiple times''))), st)
          else (case co_next (w, s) of
                  (p, (w', s')) \<Rightarrow> (Returned (Promise p), ((True, w'), s'))))"

text \<open>
  The generator function \<open>converted\<close> of \<open>convert.back\<close> (lines 45 to 58), as the engine runs
  it: it yields one promise, \<open>Promise.resolve(mw(ctx, ...))\<close>; an exception of \<open>mw\<close> or a
  rejection of that promise ends the generator with the error, a fulfilment ends it
  with \<open>undefined\<close>.
\<close>

definition generator_result ::
  "completion \<times> (bool \<times> 'w) \<times> 's \<Rightarrow> outcome \<times> 'w \<times> 's" where
  "generator_result r =
     (case r of
        (Threw e, ((called, w'), s')) \<Rightarrow> (Rejected e, (w', s'))
      | (Returned x, ((called, w'), s')) \<Rightarrow>
          (case promise_resolve x of
             Fulfilled v \<Rightarrow> (Fulfilled Undefined, (w', s'))
           | Rejected e \<Rightarrow> (Rejected e, (w', s'))
           | Pending \<Rightarrow> (Pending, (w', s'))))"

definition converted_back ::
  "'s script \<Rightarrow> ('w \<times> 's \<Rightarrow> outcome \<times> 'w \<times> 's) \<Rightarrow> 'w \<times> 's \<Rightarrow> outcome \<times> 'w \<times> 's" where
  "converted_back mw co_next st =
     generator_result (invoke mw (guarded co_next) ((False, fst st), snd st))"

text \<open>
  To say how often the downstream generator is driven, it is wrapped so that each run
  adds one to a counter kept in the part of the world that the wrapped function does not
  reach. The wrapper changes nothing else.
\<close>

definition counted ::
  "('w \<times> 's \<Rightarrow> outcome \<times> 'w \<times> 's) \<Rightarrow> (nat \<times> 'w) \<times> 's \<Rightarrow> outcome \<times> (nat \<times> 'w) \<times> 's" where
  "counted co_next st =
     (case st of
        ((n, w), s) \<Rightarrow>
          (case co_next (w, s) of (p, (w', s')) \<Rightarrow> (p, ((Suc n, w'), s'))))"

section \<open>A composer and some middleware, for concrete runs\<close>

text \<open>
  Modelled from the spec: the composer of section 4.3, which is the external package
  koa-compose and not part of \<open>src/\<close>. Each step runs with the rest of the chain as its
  continuation, the last one with the continuation given to the composed callable; what
  a step returns is wrapped in a promise and what it throws becomes a rejection. The
  theorems below take the composer as a parameter; this one instantiates it in examples.
\<close>

fun compose_chain :: "'s middleware list \<Rightarrow> 's middleware" where
  "compose_chain [] next s =
     (case next s of
        (Threw e, s') \<Rightarrow> (Returned (Promise (Rejected e)), s')
      | (Returned r, s') \<Rightarrow> (Returned (Promise (promise_resolve r)), s'))"
| "compose_chain (m # ms) next s =
     (case m (compose_chain ms next) s of
        (Threw e, s') \<Rightarrow> (Returned (Promise (Rejected e)), s')
      | (Returned r, s') \<Rightarrow> (Returned (Promise (promise_resolve r)), s'))"

definition upstream_done :: "ctx continuation" where
  \<comment> \<open>\<open>() => Promise.resolve()\<close>\<close>
  "upstream_done c = (Returned (Promise (Fulfilled Undefined)), c)"

definition upstream_fails :: "ctx continuation" where
  \<comment> \<open>\<open>() => Promise.reject(new Error('upstream'))\<close>\<close>
  "upstream_fails c = (Returned (Promise (Rejected (Error ''upstream''))), c)"

definition responder :: "ctx middleware" where
  \<comment> \<open>\<open>(ctx) => 'done'\<close>: returns a value that is not a promise\<close>
  "responder next c = (Returned (Plain (Str ''done'')), c)"

definition rejecting :: "ctx middleware" where
  \<comment> \<open>\<open>(ctx, next) => Promise.reject(new Error('boom'))\<close>\<close>
  "rejecting next c = (Returned (Promise (Rejected (Error ''boom''))), c)"

definition throwing :: "ctx middleware" where
  \<comment> \<open>\<open>(ctx, next) => { throw new Error('boom') }\<close>\<close>
  "throwing next c = (Threw (Error ''boom''), c)"

definition passing :: "ctx middleware" where
  \<comment> \<open>\<open>(ctx, next) => next()\<close>\<close>
  "passing next c = next c"

text \<open>
  For the guard of \<open>convert.back\<close> the state is a log of markers.
  \<open>calls_twice\<close> logs \<open>1\<close>, awaits \<open>next()\<close> whatever its outcome, logs \<open>3\<close> and returns
  \<open>next()\<close>; \<open>downstream_marks\<close> is a downstream generator that logs \<open>2\<close> and ends.
\<close>

definition calls_twice :: "string script" where
  "calls_twice =
     Write (\<lambda>s. s @ ''1'')
       (CallNext (\<lambda>c1.
          Write (\<lambda>s. s @ ''3'')
            (CallNext (\<lambda>c2. case c2 of Threw e \<Rightarrow> Throw e | Returned r \<Rightarrow> Return r))))"

definition downstream_marks :: "unit \<times> string \<Rightarrow> outcome \<times> unit \<times> string" where
  "downstream_marks st = (Fulfilled Undefined, (fst st, snd st @ ''2''))"

section \<open>Properties of the matcher\<close>

lemma startsAt_take: "startsAt pat s \<longleftrightarrow> take (length pat) s = pat"
  by (induction pat s rule: startsAt.induct) auto

lemma indexFrom_ge: "indexFrom pat s i = - 1 \<or> int i \<le> indexFrom pat s i"
  by (induction pat s i rule: indexFrom.induct) auto

lemma indexFrom_zero: "indexFrom pat s 0 = 0 \<longleftrightarrow> startsAt pat s"
proof (cases s)
  case Nil
  then show ?thesis by (cases pat) auto
next
  case (Cons c cs)
  have "indexFrom pat cs (Suc 0) \<noteq> 0"
    using indexFrom_ge [of pat cs "Suc 0"] by auto
  with Cons show ?thesis by auto
qed

lemma replace_front: "startsAt pat s \<Longrightarrow> replace s pat rep = rep @ drop (length pat) s"
  by (cases s; cases pat) auto

lemma match_refines: "match prefix rp = match_spec prefix rp"
proof (cases "startsAt prefix rp")
  case False
  then show ?thesis
    by (simp add: match_def match_spec_def indexOf_def indexFrom_zero startsAt_take)
next
  case True
  then have r: "replace rp prefix [] = drop (length prefix) rp"
    by (simp add: replace_front)
  have t: "trailingSlash prefix \<longleftrightarrow> prefix \<noteq> [] \<and> last prefix = CHR ''/''"
    by (auto simp: trailingSlash_def slice_last_def)
  have c: "charAt0 s \<noteq> Some ''/'' \<longleftrightarrow> take 1 s \<noteq> ''/''" for s
    by (cases s) (auto simp: charAt0_def)
  have i: "indexOf rp prefix = 0"
    using True by (simp add: indexOf_def indexFrom_zero)
  have p: "take (length prefix) rp = prefix"
    using True by (simp add: startsAt_take)
  have "match prefix rp =
      (let newPath = (if drop (length prefix) rp = [] then ''/'' else drop (length prefix) rp)
       in if prefix \<noteq> [] \<and> last prefix = CHR ''/'' then Some newPath
          else if take 1 newPath \<noteq> ''/'' then None else Some newPath)"
    unfolding match_def i r t c by (simp add: Let_def)
  also have "\<dots> = match_spec prefix rp"
    unfolding match_spec_def p by (simp add: Let_def)
  finally show ?thesis .
qed

lemma match_nonempty: "match prefix rp = Some np \<Longrightarrow> np \<noteq> []"
  by (auto simp: match_def Let_def split: if_splits)

lemmas match_eval =
  match_def indexOf_def trailingSlash_def slice_last_def charAt0_def

text \<open>
  C3. For every prefix and every request path the matcher of the code is the matcher of
  the specification: no match unless the path starts with the prefix; the remainder is
  the path without the prefix, \<open>/\<close> when that is empty; a prefix ending in \<open>/\<close> accepts
  every remainder, any other prefix only a remainder that starts with \<open>/\<close>. So \<open>/images\<close>
  matches \<open>/images\<close> giving \<open>/\<close> and \<open>/images/x\<close> giving \<open>/x\<close>, and not \<open>/imagesFoo\<close>. In
  particular this holds for every prefix that starts with \<open>/\<close>.
\<close>

theorem match_as_specified:
  "match prefix rp = match_spec prefix rp \<and>
   match ''/images'' ''/images'' = Some ''/'' \<and>
   match ''/images'' ''/images/x'' = Some ''/x'' \<and>
   match ''/images'' ''/imagesFoo'' = None"
proof -
  have "match ''/images'' ''/images'' = Some ''/''"
    and "match ''/images'' ''/images/x'' = Some ''/x''"
    and "match ''/images'' ''/imagesFoo'' = None"
    by (simp_all add: match_eval)
  with match_refines [of prefix rp] show ?thesis by blast
qed

text \<open>
  With a prefix that ends in \<open>/\<close> the remainder is what follows the prefix, so it does not
  start with \<open>/\<close>; the table in the doc comment of \<open>match\<close> shows \<open>/asdf\<close> for this input.
\<close>

lemma match_trailing_slash_remainder: "match ''/images/'' ''/images/asdf'' = Some ''asdf''"
  by (simp add: match_eval)

section \<open>Properties of the adapters\<close>

lemma typeof_function: "typeof x = ''function'' \<longleftrightarrow> (\<exists>f. x = Function f)"
  by (induction x rule: typeof.induct) auto

text \<open>
  C4. The adapters are the identity on an input that is already in the target style:
  \<open>convert\<close> returns a function that is not a generator function as it is, and
  \<open>convert.back\<close> returns a generator function as it is.
\<close>

theorem adapters_identity_on_target_style:
  "(constructor_name m \<noteq> ''GeneratorFunction'' \<longrightarrow> convert (Function m) = Inr m) \<and>
   (constructor_name g = ''GeneratorFunction'' \<longrightarrow> convert_back (Function g) = Inr g)"
  by (simp add: convert_def convert_back_def)

text \<open>C4 at an arrow function and at a generator function.\<close>

theorem adapters_identity_on_target_style_witness:
  "convert (Function (JSFunction ''Function'' ''f'' None (Code ()))) =
     Inr (JSFunction ''Function'' ''f'' None (Code ())) \<and>
   convert_back (Function (JSFunction ''GeneratorFunction'' ''g'' None (Code ()))) =
     Inr (JSFunction ''GeneratorFunction'' ''g'' None (Code ()))"
  using adapters_identity_on_target_style
    [of "JSFunction ''Function'' ''f'' None (Code ())"
        "JSFunction ''GeneratorFunction'' ''g'' None (Code ())"]
  by simp

text \<open>
  C6, as the claim states it, fails where \<open>_name\<close> is present and empty: \<open>||\<close> takes the
  declared name then. For \<open>function foo (ctx, next) {}\<close> with \<open>_name = ''\<close>, \<open>convert.back\<close>
  gives a wrapper whose \<open>_name\<close> is \<open>foo\<close>, not the empty override.
\<close>

theorem name_propagation_counterexample:
  "convert_back (Function (JSFunction ''Function'' ''foo'' (Some []) (Code ()))) =
     Inr (JSFunction ''GeneratorFunction'' ''converted'' (Some ''foo'')
            (ConvertedBackClosure (JSFunction ''Function'' ''foo'' (Some []) (Code ()))))"
  by (simp add: convert_back_def name_or_def)

text \<open>
  C6, amended. For every function that is wrapped, the wrapper made by \<open>convert\<close> and by
  \<open>convert.back\<close> carries as \<open>_name\<close> the \<open>_name\<close> of the function if that is present and not
  empty, and the declared name of the function if \<open>_name\<close> is absent or empty. So the
  wrappers of a function named \<open>testing\<close> without \<open>_name\<close> have the \<open>_name\<close> \<open>testing\<close>.
\<close>

theorem name_propagation:
  "(constructor_name f = ''GeneratorFunction'' \<and> underscore_name f = Some n \<and> n \<noteq> [] \<longrightarrow>
      (\<exists>w. convert (Function f) = Inr w \<and> w \<noteq> f \<and> underscore_name w = Some n)) \<and>
   (constructor_name f = ''GeneratorFunction'' \<and>
      (underscore_name f = None \<or> underscore_name f = Some []) \<longrightarrow>
      (\<exists>w. convert (Function f) = Inr w \<and> w \<noteq> f \<and> underscore_name w = Some (name f))) \<and>
   (constructor_name f \<noteq> ''GeneratorFunction'' \<and> underscore_name f = Some n \<and> n \<noteq> [] \<longrightarrow>
      (\<exists>w. convert_back (Function f) = Inr w \<and> w \<noteq> f \<and> underscore_name w = Some n)) \<and>
   (constructor_name f \<noteq> ''GeneratorFunction'' \<and>
      (underscore_name f = None \<or> underscore_name f = Some []) \<longrightarrow>
      (\<exists>w. convert_back (Function f) = Inr w \<and> w \<noteq> f \<and> underscore_name w = Some (name f)))"
  by (cases f) (auto simp: convert_def convert_back_def name_or_def)

text \<open>
  C6 amended, at \<open>function * testing (next) {}\<close> and \<open>function testing (ctx, next) {}\<close>, and
  at the same two functions with \<open>_name = 'shown'\<close>.
\<close>

theorem name_propagation_witness:
  "(\<exists>w. convert (Function (JSFunction ''GeneratorFunction'' ''testing'' None (Code ()))) = Inr w \<and>
        w \<noteq> JSFunction ''GeneratorFunction'' ''testing'' None (Code ()) \<and>
        underscore_name w = Some ''testing'') \<and>
   (\<exists>w. convert_back (Function (JSFunction ''Function'' ''testing'' None (Code ()))) = Inr w \<and>
        w \<noteq> JSFunction ''Function'' ''testing'' None (Code ()) \<and>
        underscore_name w = Some ''testing'') \<and>
   (\<exists>w. convert (Function (JSFunction ''GeneratorFunction'' ''testing'' (Some ''shown'') (Code ()))) = Inr w \<and>
        w \<noteq> JSFunction ''GeneratorFunction'' ''testing'' (Some ''shown'') (Code ()) \<and>
        underscore_name w = Some ''shown'') \<and>
   (\<exists>w. convert_back (Function (JSFunction ''Function'' ''testing'' (Some ''shown'') (Code ()))) = Inr w \<and>
        w \<noteq> JSFunction ''Function'' ''testing'' (Some ''shown'') (Code ()) \<and>
        underscore_name w = Some ''shown'')"
  using
    name_propagation [of "JSFunction ''GeneratorFunction'' ''testing'' None (Code ())" "''x''"]
    name_propagation [of "JSFunction ''Function'' ''testing'' None (Code ())" "''x''"]
    name_propagation [of "JSFunction ''GeneratorFunction'' ''testing'' (Some ''shown'') (Code ())" "''shown''"]
    name_propagation [of "JSFunction ''Function'' ''testing'' (Some ''shown'') (Code ())" "''shown''"]
  by simp

text \<open>
  C7. For every value whose \<open>typeof\<close> is not \<open>function\<close>, that is, every value that is not a
  function, \<open>convert\<close> and \<open>convert.back\<close> throw the \<open>TypeError\<close> \<open>middleware must be a function\<close>:
  the result is the error, no wrapper is made and nothing of the value is run.
\<close>

theorem non_callable_rejected:
  "(typeof x = ''function'') = (\<exists>f. x = Function f) \<and>
   (typeof x \<noteq> ''function'' \<longrightarrow>
      convert x = Inl (TypeError ''middleware must be a function'') \<and>
      convert_back x = Inl (TypeError ''middleware must be a function''))"
  by (simp add: typeof_function convert_def convert_back_def)

text \<open>C7 at the number 3, at \<open>undefined\<close> and at an array holding a function.\<close>

theorem non_callable_rejected_witness:
  "convert (Primitive (Num 3) :: unit jsvalue) = Inl (TypeError ''middleware must be a function'') \<and>
   convert_back (Primitive (Num 3) :: unit jsvalue) = Inl (TypeError ''middleware must be a function'') \<and>
   convert (Primitive Undefined :: unit jsvalue) = Inl (TypeError ''middleware must be a function'') \<and>
   convert_back (Array [Function (JSFunction ''Function'' ''f'' None (Code ()))]) =
     Inl (TypeError ''middleware must be a function'')"
  using
    non_callable_rejected [of "Primitive (Num 3) :: unit jsvalue"]
    non_callable_rejected [of "Primitive Undefined :: unit jsvalue"]
    non_callable_rejected [of "Array [Function (JSFunction ''Function'' ''f'' None (Code ()))]"]
  by simp



section \<open>Properties of the mount combinator\<close>

lemmas mount_eval =
  mount_call_def mount_def normalize_def mounted_def mount_next_def restore_after_def
  promise_then_def promise_resolve_def Let_def

lemma mount_is_mounted:
  "mount compose (Some prefix) app = Inr m \<Longrightarrow> prefix \<noteq> ''/'' \<Longrightarrow>
   m = mounted prefix (normalize compose app)"
  by (auto simp: mount_def Let_def split: if_splits)

lemma mounted_on_match:
  "match prefix (path c) = Some np \<Longrightarrow>
   mounted prefix downstream upstream c =
     restore_after (path c)
       (downstream (mount_next (path c) np upstream) (c\<lparr>mountPath := Some prefix, path := np\<rparr>))"
  using match_nonempty [of prefix "path c" np] by (simp add: mounted_def Let_def)

lemma restore_after_fulfilled:
  "x = Plain v \<or> x = Promise (Fulfilled v) \<Longrightarrow>
   restore_after prev (Returned x, c') =
     (Returned (Promise (Fulfilled Undefined)), c'\<lparr>path := prev\<rparr>)"
  by (auto simp: restore_after_def promise_then_def promise_resolve_def)

lemma restore_after_rejected:
  "restore_after prev (Returned (Promise (Rejected e)), c') =
     (Returned (Promise (Rejected e)), c')"
  by (simp add: restore_after_def promise_then_def promise_resolve_def)

lemma restore_after_threw: "restore_after prev (Threw e, c') = (Threw e, c')"
  by (simp add: restore_after_def)

lemma restore_after_promise:
  "\<exists>p. fst (restore_after prev (Returned x, c')) = Returned (Promise p)"
  by (simp add: restore_after_def split: prod.splits)

lemma restore_after_mountPath: "mountPath (snd (restore_after prev r)) = mountPath (snd r)"
  by (auto simp: restore_after_def promise_then_def
      split: prod.splits completion.splits outcome.splits)

lemma mount_next_fulfilled:
  "upstream (d\<lparr>path := prev\<rparr>) = (Returned (Promise (Fulfilled v)), d') \<Longrightarrow>
   mount_next prev np upstream d = (Returned (Promise (Fulfilled Undefined)), d'\<lparr>path := np\<rparr>)"
  by (simp add: mount_next_def promise_then_def promise_resolve_def)

lemma mount_next_rejected:
  "upstream (d\<lparr>path := prev\<rparr>) = (Returned (Promise (Rejected e)), d') \<Longrightarrow>
   mount_next prev np upstream d = (Returned (Promise (Rejected e)), d')"
  by (simp add: mount_next_def promise_then_def)

text \<open>
  C1, as the claim states it, fails when the promise of the target rejects: the callback
  that restores \<open>ctx.path\<close> is given to \<open>then\<close> as the handler of fulfilment only. With
  \<open>mount('/foo', (ctx, next) => Promise.reject(new Error('boom')))\<close> and the path \<open>/foo/x\<close>,
  the promise of the mounted callable rejects while \<open>ctx.path\<close> is still \<open>/x\<close>.
\<close>

theorem path_restoration_counterexample:
  "mount_call compose_chain (Some ''/foo'') (Middleware rejecting) upstream_done
     \<lparr>path = ''/foo/x'', mountPath = None\<rparr> =
   (Returned (Promise (Rejected (Error ''boom''))), \<lparr>path = ''/x'', mountPath = Some ''/foo''\<rparr>)"
  by (simp add: mount_eval match_eval rejecting_def)

text \<open>
  C1, amended. For every callable \<open>m\<close> that \<open>mount\<close> returns for a prefix other than \<open>/\<close>, every
  context whose path matches the prefix and every upstream continuation: when the target
  returns a value or a promise that is fulfilled, the promise of \<open>m\<close> is fulfilled and
  \<open>ctx.path\<close> has its value from before the call when it settles; when the promise of the
  target rejects, the promise of \<open>m\<close> rejects with the same error and the context is as the
  target left it, \<open>ctx.path\<close> is not restored.
\<close>

theorem path_restored_when_target_resolves:
  assumes "mount compose (Some prefix) app = Inr m" and "prefix \<noteq> ''/''"
    and "match prefix (path c) = Some np"
    and "normalize compose app (mount_next (path c) np upstream)
           (c\<lparr>mountPath := Some prefix, path := np\<rparr>) = (r, c')"
  shows "(r = Returned (Plain v) \<or> r = Returned (Promise (Fulfilled v)) \<longrightarrow>
           fst (m upstream c) = Returned (Promise (Fulfilled Undefined)) \<and>
           path (snd (m upstream c)) = path c) \<and>
         (r = Returned (Promise (Rejected e)) \<longrightarrow>
           m upstream c = (Returned (Promise (Rejected e)), c'))"
proof -
  have m: "m upstream c = restore_after (path c) (r, c')"
    using assms mount_is_mounted [OF assms(1,2)] by (simp add: mounted_on_match)
  show ?thesis
    unfolding m by (auto simp: restore_after_fulfilled restore_after_rejected)
qed

text \<open>
  C1 amended, at \<open>mount('/foo', ...)\<close> and the path \<open>/foo/x\<close>: a target that returns a string,
  and a target whose promise rejects.
\<close>

theorem path_restored_when_target_resolves_witness:
  "fst (mount_call compose_chain (Some ''/foo'') (Middleware responder) upstream_done
          \<lparr>path = ''/foo/x'', mountPath = None\<rparr>) = Returned (Promise (Fulfilled Undefined)) \<and>
   path (snd (mount_call compose_chain (Some ''/foo'') (Middleware responder) upstream_done
                \<lparr>path = ''/foo/x'', mountPath = None\<rparr>)) = ''/foo/x'' \<and>
   mount_call compose_chain (Some ''/foo'') (Middleware rejecting) upstream_done
     \<lparr>path = ''/foo/x'', mountPath = None\<rparr> =
   (Returned (Promise (Rejected (Error ''boom''))), \<lparr>path = ''/x'', mountPath = Some ''/foo''\<rparr>)"
  using
    path_restored_when_target_resolves
      [of compose_chain "''/foo''" "Middleware responder" "mounted ''/foo'' responder"
          "\<lparr>path = ''/foo/x'', mountPath = None\<rparr>" "''/x''" upstream_done
          "Returned (Plain (Str ''done''))" "\<lparr>path = ''/x'', mountPath = Some ''/foo''\<rparr>"
          "Str ''done''" "Error []"]
    path_restored_when_target_resolves
      [of compose_chain "''/foo''" "Middleware rejecting" "mounted ''/foo'' rejecting"
          "\<lparr>path = ''/foo/x'', mountPath = None\<rparr>" "''/x''" upstream_done
          "Returned (Promise (Rejected (Error ''boom'')))"
          "\<lparr>path = ''/x'', mountPath = Some ''/foo''\<rparr>" Undefined "Error ''boom''"]
  by (simp add: mount_call_def mount_def normalize_def match_eval responder_def rejecting_def)

text \<open>
  C5. For every callable \<open>m\<close> that \<open>mount\<close> returns for a prefix other than \<open>/\<close> and every
  context whose path matches: the target runs on the context with \<open>path\<close> set to the
  remainder and \<open>mountPath\<close> set to the prefix, and with the continuation \<open>mount_next\<close>. This
  continuation calls the upstream continuation on the context with \<open>path\<close> set back to its
  value from before the mount; when the promise of the upstream continuation is
  fulfilled it sets \<open>path\<close> to the remainder again and its own promise is fulfilled; when
  that promise rejects, its own promise rejects with the same error.
\<close>

theorem mount_continuation:
  assumes "mount compose (Some prefix) app = Inr m" and "prefix \<noteq> ''/''"
    and "match prefix (path c) = Some np"
  shows "m upstream c =
           restore_after (path c)
             (normalize compose app (mount_next (path c) np upstream)
                (c\<lparr>mountPath := Some prefix, path := np\<rparr>)) \<and>
         (upstream (d\<lparr>path := path c\<rparr>) = (Returned (Promise (Fulfilled v)), d') \<longrightarrow>
            mount_next (path c) np upstream d =
              (Returned (Promise (Fulfilled Undefined)), d'\<lparr>path := np\<rparr>)) \<and>
         (upstream (d\<lparr>path := path c\<rparr>) = (Returned (Promise (Rejected e)), d') \<longrightarrow>
            mount_next (path c) np upstream d = (Returned (Promise (Rejected e)), d'))"
  using assms(3) mount_is_mounted [OF assms(1,2)]
  by (simp add: mounted_on_match mount_next_fulfilled mount_next_rejected)

text \<open>
  C5 at \<open>mount('/foo', (ctx, next) => next())\<close> and the path \<open>/foo/x\<close>, with an upstream
  continuation that resolves and with one that rejects.
\<close>

theorem mount_continuation_witness:
  "mount_call compose_chain (Some ''/foo'') (Middleware passing) upstream_done
      \<lparr>path = ''/foo/x'', mountPath = None\<rparr> =
    restore_after ''/foo/x''
      (passing (mount_next ''/foo/x'' ''/x'' upstream_done)
         \<lparr>path = ''/x'', mountPath = Some ''/foo''\<rparr>) \<and>
   mount_next ''/foo/x'' ''/x'' upstream_done \<lparr>path = ''/x'', mountPath = Some ''/foo''\<rparr> =
     (Returned (Promise (Fulfilled Undefined)), \<lparr>path = ''/x'', mountPath = Some ''/foo''\<rparr>) \<and>
   mount_next ''/foo/x'' ''/x'' upstream_fails \<lparr>path = ''/x'', mountPath = Some ''/foo''\<rparr> =
     (Returned (Promise (Rejected (Error ''upstream''))),
      \<lparr>path = ''/foo/x'', mountPath = Some ''/foo''\<rparr>)"
  using
    mount_continuation
      [of compose_chain "''/foo''" "Middleware passing" "mounted ''/foo'' passing"
          "\<lparr>path = ''/foo/x'', mountPath = None\<rparr>" "''/x''" upstream_done
          "\<lparr>path = ''/x'', mountPath = Some ''/foo''\<rparr>" Undefined
          "\<lparr>path = ''/foo/x'', mountPath = Some ''/foo''\<rparr>" "Error []"]
    mount_continuation
      [of compose_chain "''/foo''" "Middleware passing" "mounted ''/foo'' passing"
          "\<lparr>path = ''/foo/x'', mountPath = None\<rparr>" "''/x''" upstream_fails
          "\<lparr>path = ''/x'', mountPath = Some ''/foo''\<rparr>" Undefined
          "\<lparr>path = ''/foo/x'', mountPath = Some ''/foo''\<rparr>" "Error ''upstream''"]
  by (simp add: mount_call_def mount_def normalize_def match_eval
      upstream_done_def upstream_fails_def)

text \<open>
  C9, as the claim states it, fails when the target or the upstream continuation writes
  \<open>mountPath\<close> itself, as a nested mount does: with \<open>mount('/foo', mount('/bar', ...))\<close> and
  the path \<open>/foo/bar\<close>, \<open>ctx.mountPath\<close> is \<open>/bar\<close> and not \<open>/foo\<close> when the outer promise settles.
\<close>

theorem mountPath_kept_counterexample:
  "mountPath (snd (mount_call compose_chain (Some ''/foo'')
                     (Middleware (mounted ''/bar'' responder)) upstream_done
                     \<lparr>path = ''/foo/bar'', mountPath = None\<rparr>)) = Some ''/bar''"
  by (simp add: mount_eval match_eval responder_def)

text \<open>
  C9, amended. For every callable \<open>m\<close> that \<open>mount\<close> returns for a prefix other than \<open>/\<close> and
  every context whose path matches: the target starts with \<open>mountPath\<close> set to the prefix,
  and when the call of \<open>m\<close> completes, by fulfilment, rejection or exception, \<open>mountPath\<close> has
  the value it had when the target completed. The mounted callable never writes it a
  second time and never puts its earlier value back; it is the prefix unless the target
  or the upstream continuation has written it.
\<close>

theorem mountPath_not_restored:
  assumes "mount compose (Some prefix) app = Inr m" and "prefix \<noteq> ''/''"
    and "match prefix (path c) = Some np"
  shows "mountPath (snd (m upstream c)) =
         mountPath (snd (normalize compose app (mount_next (path c) np upstream)
                           (c\<lparr>mountPath := Some prefix, path := np\<rparr>)))"
  using assms(3) mount_is_mounted [OF assms(1,2)]
  by (simp add: mounted_on_match restore_after_mountPath)

text \<open>
  C9 amended, at \<open>mount('/foo', ...)\<close>, the path \<open>/foo/x\<close> and a context whose \<open>mountPath\<close> was
  \<open>/old\<close>: with a target that returns and with a target whose promise rejects, \<open>mountPath\<close>
  is \<open>/foo\<close> afterwards.
\<close>

theorem mountPath_not_restored_witness:
  "mountPath (snd (mount_call compose_chain (Some ''/foo'') (Middleware responder) upstream_done
                     \<lparr>path = ''/foo/x'', mountPath = Some ''/old''\<rparr>)) = Some ''/foo'' \<and>
   mountPath (snd (mount_call compose_chain (Some ''/foo'') (Middleware rejecting) upstream_done
                     \<lparr>path = ''/foo/x'', mountPath = Some ''/old''\<rparr>)) = Some ''/foo''"
  using
    mountPath_not_restored
      [of compose_chain "''/foo''" "Middleware responder" "mounted ''/foo'' responder"
          "\<lparr>path = ''/foo/x'', mountPath = Some ''/old''\<rparr>" "''/x''" upstream_done]
    mountPath_not_restored
      [of compose_chain "''/foo''" "Middleware rejecting" "mounted ''/foo'' rejecting"
          "\<lparr>path = ''/foo/x'', mountPath = Some ''/old''\<rparr>" "''/x''" upstream_done]
  by (simp add: mount_call_def mount_def normalize_def match_eval responder_def rejecting_def)

text \<open>
  C10, as the claim states it, fails when the target throws instead of returning: the
  call of the target is the argument of \<open>Promise.resolve\<close> and stands in no \<open>try\<close>, so the
  exception leaves the mounted callable and no promise is returned. With
  \<open>mount('/foo', (ctx, next) => { throw new Error('boom') })\<close> and the path \<open>/foo/x\<close> the
  mounted callable throws \<open>boom\<close>.
\<close>

theorem mounted_returns_promise_counterexample:
  "mount_call compose_chain (Some ''/foo'') (Middleware throwing) upstream_done
     \<lparr>path = ''/foo/x'', mountPath = None\<rparr> =
   (Threw (Error ''boom''), \<lparr>path = ''/x'', mountPath = Some ''/foo''\<rparr>)"
  by (simp add: mount_eval match_eval throwing_def)

text \<open>
  C10, amended. For every callable \<open>m\<close> that \<open>mount\<close> returns for a prefix other than \<open>/\<close>,
  every context whose path matches and every upstream continuation: when the target
  returns, a promise or a value that is not a promise, \<open>m\<close> returns a promise; when the
  target returned a value or a promise fulfilled with a value, the promise of \<open>m\<close> is
  fulfilled with \<open>undefined\<close>, whatever that value was; and when the target throws, \<open>m\<close>
  throws the same error, returns no promise and leaves the context as it was at the
  throw.
\<close>

theorem mounted_returns_promise_when_target_returns:
  assumes "mount compose (Some prefix) app = Inr m" and "prefix \<noteq> ''/''"
    and "match prefix (path c) = Some np"
    and "normalize compose app (mount_next (path c) np upstream)
           (c\<lparr>mountPath := Some prefix, path := np\<rparr>) = (r, c')"
  shows "(r = Returned x \<longrightarrow> (\<exists>p. fst (m upstream c) = Returned (Promise p))) \<and>
         (r = Returned (Plain v) \<or> r = Returned (Promise (Fulfilled v)) \<longrightarrow>
            fst (m upstream c) = Returned (Promise (Fulfilled Undefined))) \<and>
         (r = Threw e \<longrightarrow> m upstream c = (Threw e, c'))"
proof -
  have m: "m upstream c = restore_after (path c) (r, c')"
    using assms mount_is_mounted [OF assms(1,2)] by (simp add: mounted_on_match)
  show ?thesis
    unfolding m using restore_after_promise [of "path c" x c']
    by (auto simp: restore_after_fulfilled restore_after_threw)
qed

text \<open>
  C10 amended, at \<open>mount('/foo', ...)\<close> and the path \<open>/foo/x\<close>: the target that returns the
  string \<open>done\<close> gives a promise fulfilled with \<open>undefined\<close>, and the target that throws
  \<open>boom\<close> makes the mounted callable throw \<open>boom\<close>.
\<close>

theorem mounted_returns_promise_when_target_returns_witness:
  "responder (mount_next ''/foo/x'' ''/x'' upstream_done) \<lparr>path = ''/x'', mountPath = Some ''/foo''\<rparr> =
     (Returned (Plain (Str ''done'')), \<lparr>path = ''/x'', mountPath = Some ''/foo''\<rparr>) \<and>
   fst (mount_call compose_chain (Some ''/foo'') (Middleware responder) upstream_done
          \<lparr>path = ''/foo/x'', mountPath = None\<rparr>) = Returned (Promise (Fulfilled Undefined)) \<and>
   mount_call compose_chain (Some ''/foo'') (Middleware throwing) upstream_done
     \<lparr>path = ''/foo/x'', mountPath = None\<rparr> =
   (Threw (Error ''boom''), \<lparr>path = ''/x'', mountPath = Some ''/foo''\<rparr>)"
  using
    mounted_returns_promise_when_target_returns
      [of compose_chain "''/foo''" "Middleware responder" "mounted ''/foo'' responder"
          "\<lparr>path = ''/foo/x'', mountPath = None\<rparr>" "''/x''" upstream_done
          "Returned (Plain (Str ''done''))" "\<lparr>path = ''/x'', mountPath = Some ''/foo''\<rparr>"
          "Plain (Str ''done'')" "Str ''done''" "Error []"]
    mounted_returns_promise_when_target_returns
      [of compose_chain "''/foo''" "Middleware throwing" "mounted ''/foo'' throwing"
          "\<lparr>path = ''/foo/x'', mountPath = None\<rparr>" "''/x''" upstream_done
          "Threw (Error ''boom'')" "\<lparr>path = ''/x'', mountPath = Some ''/foo''\<rparr>"
          "Plain Undefined" Undefined "Error ''boom''"]
  by (simp add: mount_call_def mount_def normalize_def match_eval responder_def throwing_def)

section \<open>Properties of the guard of \<open>convert.back\<close>\<close>

lemma guarded_called:
  "guarded co_next ((True, w), s) =
     (Returned (Promise (Rejected (Error ''next() called multiple times''))), ((True, w), s))"
  by (simp add: guarded_def)

lemma guarded_first:
  "co_next (w, s) = (p, (w1, s1)) \<Longrightarrow>
   guarded co_next ((False, w), s) = (Returned (Promise p), ((True, w1), s1))"
  by (simp add: guarded_def)

text \<open>
  The flag and the counter move together: while the flag is set the counter stands
  still, and from a clear flag the run ends either with the flag clear and the counter
  unchanged or with the flag set and the counter one higher.
\<close>

lemma invoke_counted:
  "invoke mw (guarded (counted d)) ((b, (n, w)), s) = (c, ((b', (n', w')), s')) \<Longrightarrow>
   (if b then b' \<and> n' = n else (\<not> b' \<and> n' = n) \<or> (b' \<and> n' = Suc n))"
proof (induction mw arbitrary: b n w s)
  case (Return x)
  then show ?case by auto
next
  case (Throw x)
  then show ?case by auto
next
  case (Write f t)
  from Write.prems
  have "invoke t (guarded (counted d)) ((b, (n, w)), f s) = (c, ((b', (n', w')), s'))"
    by simp
  from Write.IH [OF this] show ?case .
next
  case (Read g)
  from Read.prems
  have "invoke (g s) (guarded (counted d)) ((b, (n, w)), s) = (c, ((b', (n', w')), s'))"
    by simp
  from Read.IH [OF _ this] show ?case by simp
next
  case (CallNext g)
  show ?case
  proof (cases b)
    case True
    with CallNext.prems
    have "invoke (g (Returned (Promise (Rejected (Error ''next() called multiple times'')))))
            (guarded (counted d)) ((True, (n, w)), s) = (c, ((b', (n', w')), s'))"
      by (simp add: guarded_called)
    from CallNext.IH [OF _ this] True show ?thesis by simp
  next
    case False
    obtain p w1 s1 where d: "d (w, s) = (p, (w1, s1))"
      by (metis prod.exhaust)
    then have "counted d ((n, w), s) = (p, ((Suc n, w1), s1))"
      by (simp add: counted_def)
    with CallNext.prems False
    have "invoke (g (Returned (Promise p))) (guarded (counted d)) ((True, (Suc n, w1)), s1) =
            (c, ((b', (n', w')), s'))"
      by (simp add: guarded_first)
    from CallNext.IH [OF _ this] False show ?thesis by simp
  qed
qed

lemma converted_back_count:
  "fst (fst (snd (converted_back mw (counted d) ((n, w), s)))) \<le> Suc n"
proof -
  obtain c b' n' w' s'
    where r: "invoke mw (guarded (counted d)) ((False, (n, w)), s) = (c, ((b', (n', w')), s'))"
    by (metis prod.exhaust)
  from invoke_counted [OF r] have "n' \<le> Suc n" by auto
  moreover have "fst (fst (snd (converted_back mw (counted d) ((n, w), s)))) = n'"
    by (simp add: converted_back_def r generator_result_def
        split: completion.splits outcome.splits)
  ultimately show ?thesis by simp
qed

text \<open>
  C2. Let the function wrapped by \<open>convert.back\<close> change the context by \<open>pre\<close>, call its
  continuation, change the context by \<open>mid\<close>, call its continuation again and go on with
  \<open>rest\<close>. Then the first call runs the downstream generator, on the context after \<open>pre\<close>,
  and the function goes on from the state that this run has left; the second call
  gives a promise rejected with the error \<open>next() called multiple times\<close> and changes
  nothing. Any call made while the flag is set is answered in that way. And whatever the
  wrapped function does, the downstream generator is run at most once in one run of
  the wrapper.
\<close>

theorem back_guards_second_call:
  "(co_next (w, pre s) = (p, (w1, s1)) \<longrightarrow>
      converted_back
        (Write pre (CallNext (\<lambda>c1. Write (mid c1) (CallNext (\<lambda>c2. rest c1 c2)))))
        co_next (w, s) =
      generator_result
        (invoke (rest (Returned (Promise p))
                      (Returned (Promise (Rejected (Error ''next() called multiple times'')))))
           (guarded co_next) ((True, w1), mid (Returned (Promise p)) s1))) \<and>
   guarded co_next ((True, w), s) =
     (Returned (Promise (Rejected (Error ''next() called multiple times''))), ((True, w), s)) \<and>
   fst (fst (snd (converted_back mw (counted co_next) ((n, w), s)))) \<le> Suc n"
proof -
  have "converted_back
          (Write pre (CallNext (\<lambda>c1. Write (mid c1) (CallNext (\<lambda>c2. rest c1 c2)))))
          co_next (w, s) =
        generator_result
          (invoke (rest (Returned (Promise p))
                        (Returned (Promise (Rejected (Error ''next() called multiple times'')))))
             (guarded co_next) ((True, w1), mid (Returned (Promise p)) s1))"
    if "co_next (w, pre s) = (p, (w1, s1))"
    using that by (simp add: converted_back_def guarded_first guarded_called)
  then show ?thesis
    using converted_back_count [of mw co_next n w s] by (simp add: guarded_called)
qed

text \<open>
  C2 at \<open>calls_twice\<close> over \<open>downstream_marks\<close>: the log ends as \<open>123\<close>, so the downstream
  generator has run once, between the two markers of the wrapped function; the wrapper
  ends with the error of the second call; the counter of downstream runs ends at 1.
\<close>

theorem back_guards_second_call_witness:
  "downstream_marks ((), ''1'') = (Fulfilled Undefined, ((), ''12'')) \<and>
   converted_back calls_twice downstream_marks ((), []) =
     (Rejected (Error ''next() called multiple times''), ((), ''123'')) \<and>
   fst (fst (snd (converted_back calls_twice (counted downstream_marks) ((0, ()), [])))) = 1"
  using
    back_guards_second_call
      [of downstream_marks "()" "\<lambda>s. s @ ''1''" "[]" "Fulfilled Undefined" "()" "''12''"
          "\<lambda>c s. s @ ''3''" "\<lambda>c1 c2. case c2 of Threw e \<Rightarrow> Throw e | Returned r \<Rightarrow> Return r"
          calls_twice 0]
  by (simp add: calls_twice_def downstream_marks_def converted_back_def generator_result_def
      guarded_def counted_def promise_resolve_def)

end
